theory Spec2Isabelle
  imports Main "HOL-Library.AList"
begin

section \<open>Python values and the library calls of \<open>server.py\<close>\<close>

text \<open>
  \<open>self.tasks\<close> holds whatever \<open>json.load\<close> returned, and a request body is whatever
  \<open>json.loads\<close> returned, so the program's values are JSON values: \<open>None\<close>, booleans,
  integers, strings, lists and dictionaries. A dictionary is the list of its items in
  insertion order. Numbers with a fraction or an exponent (Python floats) are not part of
  the model. A string is the sequence of bytes that UTF-8 gives for its code points; a
  lone surrogate, which \<open>json.loads\<close> and \<open>json.load\<close> accept in an escape, is the three
  bytes that the UTF-8 scheme gives for its code point (U+D800 is \<open>ED A0 80\<close>), and
  encoding such a string for a file or a response raises \<open>UnicodeEncodeError\<close>.
\<close>

datatype json =
    JNull
  | JBool bool
  | JInt int
  | JStr string
  | JArr "json list"
  | JObj "(string \<times> json) list"

text \<open>
  The exceptions that can reach one of the program's \<open>try\<close> statements or escape from it.
  \<open>TypeError\<close> and \<open>KeyError\<close> are not told apart: no handler of the program catches
  either.
\<close>

datatype py_exc =
    OSError
  | JSONDecodeError
  | UnicodeDecodeError
  | UnicodeEncodeError
  | ValueError
  | AttributeError
  | TypeError_or_KeyError

text \<open>
  A response: the status code, the headers the program sets itself (\<open>send_response\<close>
  adds \<open>Server\<close> and \<open>Date\<close> to every response; they are left out), and the body.
\<close>

record response =
  status :: nat
  headers :: "(string \<times> string) list"
  body :: string

text \<open>
  The library functions that the program calls are parameters of the model:
  \<^item> \<open>json_dump v\<close>: the bytes that \<open>json.dump(v, f, ensure_ascii=False, indent=2)\<close> writes
    to a file opened with \<open>encoding='utf-8'\<close>, or the exception that it raises together
    with the bytes written before it;
  \<^item> \<open>json_load bs\<close>: what \<open>json.load(f)\<close> returns or raises on a file with the bytes
    \<open>bs\<close>, opened with \<open>encoding='utf-8'\<close>;
  \<^item> \<open>json_loads bs\<close>: what \<open>json.loads(bs)\<close> returns or raises on the bytes \<open>bs\<close>;
  \<^item> \<open>json_dumps v\<close>: the bytes of \<open>json.dumps(v, ensure_ascii=False).encode()\<close>, or the
    exception that it raises;
  \<^item> \<open>unsupported_method c\<close>: the headers and the body of the error page that
    \<open>BaseHTTPRequestHandler\<close> sends for a command \<open>c\<close> it has no method for.
\<close>

record py_lib =
  json_dump :: "json \<Rightarrow> (py_exc \<times> string) + string"
  json_load :: "string \<Rightarrow> py_exc + json"
  json_loads :: "string \<Rightarrow> py_exc + json"
  json_dumps :: "json \<Rightarrow> py_exc + string"
  unsupported_method :: "string \<Rightarrow> (string \<times> string) list \<times> string"

text \<open>Truth value of a Python object (\<open>not x\<close> is its negation).\<close>

fun py_truthy :: "json \<Rightarrow> bool" where
  "py_truthy JNull = False"
| "py_truthy (JBool b) = b"
| "py_truthy (JInt n) = (n \<noteq> 0)"
| "py_truthy (JStr s) = (s \<noteq> [])"
| "py_truthy (JArr xs) = (xs \<noteq> [])"
| "py_truthy (JObj kvs) = (kvs \<noteq> [])"

text \<open>The integer a Python object counts as in arithmetic; \<open>bool\<close> is a subclass of \<open>int\<close>.\<close>

fun py_num :: "json \<Rightarrow> int option" where
  "py_num (JInt n) = Some n"
| "py_num (JBool b) = Some (if b then 1 else 0)"
| "py_num _ = None"

text \<open>\<open>x[k]\<close> for a string key: only a dictionary that has the key answers.\<close>

fun py_getitem :: "json \<Rightarrow> string \<Rightarrow> py_exc + json" where
  "py_getitem (JObj kvs) k =
     (case map_of kvs k of None \<Rightarrow> Inl TypeError_or_KeyError | Some v \<Rightarrow> Inr v)"
| "py_getitem _ k = Inl TypeError_or_KeyError"

text \<open>\<open>x.get(k)\<close>: only dictionaries have the method; a missing key gives \<open>None\<close>.\<close>

fun py_get :: "json \<Rightarrow> string \<Rightarrow> py_exc + json" where
  "py_get (JObj kvs) k = Inr (case map_of kvs k of None \<Rightarrow> JNull | Some v \<Rightarrow> v)"
| "py_get _ k = Inl AttributeError"

text \<open>\<open>x[k] = v\<close> on a dictionary: the key keeps its place, a new key goes last.\<close>

fun py_setitem :: "json \<Rightarrow> string \<Rightarrow> json \<Rightarrow> json" where
  "py_setitem (JObj kvs) k v = JObj (AList.update k v kvs)"
| "py_setitem x k v = x"

section \<open>The persistence file\<close>

text \<open>
  What an attempt to write the file does: it succeeds, or \<open>open(..., 'w')\<close> raises
  \<open>OSError\<close> and the file is untouched, or the file is opened (and so truncated) and the
  write raises \<open>OSError\<close>, leaving the given bytes behind.
\<close>

datatype write_mode = Write_ok | Open_fails | Write_fails string

text \<open>
  The file: whether \<open>os.path.exists\<close> finds it, whether opening it for reading succeeds,
  its bytes, how writing behaves, and how many times the program has opened it for
  writing so far (a counter kept by the model, so that "no write" can be told from a
  write of the same bytes).
\<close>

record disk =
  present :: bool
  readable :: bool
  bytes :: string
  write_mode :: write_mode
  writes :: nat

text \<open>\<open>TaskManager\<close>: the in-memory \<open>self.tasks\<close> and the file named \<open>self.filename\<close>.\<close>

record task_manager =
  tasks :: json
  disk :: disk

section \<open>\<open>TaskManager\<close>\<close>

text \<open>
  \<open>load\<close>: the \<open>except\<close> clause catches \<open>json.JSONDecodeError\<close> and \<open>IOError\<close> (an alias
  of \<open>OSError\<close>); any other exception leaves the method.
\<close>

definition load :: "py_lib \<Rightarrow> task_manager \<Rightarrow> py_exc + task_manager" where
  "load J m =
     (if present (disk m) then
        (if \<not> readable (disk m) then Inr (m\<lparr>tasks := JArr []\<rparr>)
         else case json_load J (bytes (disk m)) of
                Inr v \<Rightarrow> Inr (m\<lparr>tasks := v\<rparr>)
              | Inl e \<Rightarrow>
                  if e = JSONDecodeError \<or> e = OSError then Inr (m\<lparr>tasks := JArr []\<rparr>)
                  else Inl e)
      else Inr (m\<lparr>tasks := JArr []\<rparr>))"

text \<open>\<open>__init__\<close>: an empty list, then \<open>load\<close>.\<close>

definition init :: "py_lib \<Rightarrow> disk \<Rightarrow> py_exc + task_manager" where
  "init J d = load J \<lparr>tasks = JArr [], disk = d\<rparr>"

text \<open>
  \<open>save\<close>: the \<open>except\<close> clause catches \<open>IOError\<close> only. The file is opened, and so
  emptied, before \<open>json.dump\<close> runs; when \<open>json.dump\<close> raises anything else, the bytes
  written before stay in the file and the exception leaves \<open>save\<close>. The result is the
  manager after the call, with the exception when one is raised.
\<close>

definition save :: "py_lib \<Rightarrow> task_manager \<Rightarrow> (py_exc \<times> task_manager) + task_manager" where
  "save J m =
     (let d = (disk m)\<lparr>writes := Suc (writes (disk m))\<rparr> in
      case write_mode d of
        Open_fails \<Rightarrow> Inr (m\<lparr>disk := d\<rparr>)
      | Write_fails left \<Rightarrow> Inr (m\<lparr>disk := d\<lparr>present := True, bytes := left\<rparr>\<rparr>)
      | Write_ok \<Rightarrow>
          (case json_dump J (tasks m) of
             Inr bs \<Rightarrow> Inr (m\<lparr>disk := d\<lparr>present := True, bytes := bs\<rparr>\<rparr>)
           | Inl (e, written) \<Rightarrow>
               if e = OSError
               then Inr (m\<lparr>disk := d\<lparr>present := True, bytes := written\<rparr>\<rparr>)
               else Inl (e, m\<lparr>disk := d\<lparr>present := True, bytes := written\<rparr>\<rparr>)))"

text \<open>
  The generator \<open>task['id'] for task in self.tasks\<close> over a list: every element must be a
  dictionary with the key \<open>'id'\<close>, and the ids must be numbers for \<open>max\<close> and \<open>+ 1\<close>.
\<close>

fun task_ids :: "json list \<Rightarrow> py_exc + int list" where
  "task_ids [] = Inr []"
| "task_ids (t # ts) =
     (case py_getitem t ''id'' of
        Inl e \<Rightarrow> Inl e
      | Inr v \<Rightarrow>
          (case py_num v of
             None \<Rightarrow> Inl TypeError_or_KeyError
           | Some n \<Rightarrow>
               (case task_ids ts of Inl e \<Rightarrow> Inl e | Inr ns \<Rightarrow> Inr (n # ns))))"

text \<open>\<open>max(ids, default=0)\<close>.\<close>

fun max_default :: "int list \<Rightarrow> int" where
  "max_default [] = 0"
| "max_default (n # ns) = fold max ns n"

text \<open>
  \<open>create_task\<close>. An exception comes with the manager as the call leaves it: unchanged
  when the id cannot be computed, with the task appended when \<open>save\<close> raises. Iterating
  over something that is not a list: an empty dictionary or string gives no ids, and
  then \<open>append\<close> is missing; their elements are strings, which have no \<open>['id']\<close>; the
  other values cannot be iterated over.
\<close>

definition create_task ::
  "py_lib \<Rightarrow> task_manager \<Rightarrow> json \<Rightarrow> json \<Rightarrow>
   (py_exc \<times> task_manager) + (json \<times> task_manager)" where
  "create_task J m title priority =
     (case tasks m of
        JArr ts \<Rightarrow>
          (case task_ids ts of
             Inl e \<Rightarrow> Inl (e, m)
           | Inr ns \<Rightarrow>
               let new_id = max_default ns + 1;
                   task = JObj [(''id'', JInt new_id), (''title'', title),
                                (''priority'', priority), (''isDone'', JBool False)]
               in (case save J (m\<lparr>tasks := JArr (ts @ [task])\<rparr>) of
                     Inl (e, m') \<Rightarrow> Inl (e, m')
                   | Inr m' \<Rightarrow> Inr (task, m')))
      | JObj kvs \<Rightarrow> Inl (if kvs = [] then AttributeError else TypeError_or_KeyError, m)
      | JStr s \<Rightarrow> Inl (if s = [] then AttributeError else TypeError_or_KeyError, m)
      | _ \<Rightarrow> Inl (TypeError_or_KeyError, m))"

text \<open>
  The loop of \<open>complete_task\<close> over a list: the result says whether a task was found,
  whether it was changed, and gives the list after the loop.
\<close>

fun complete_scan :: "json list \<Rightarrow> int \<Rightarrow> py_exc + (bool \<times> bool \<times> json list)" where
  "complete_scan [] i = Inr (False, False, [])"
| "complete_scan (t # ts) i =
     (case py_getitem t ''id'' of
        Inl e \<Rightarrow> Inl e
      | Inr v \<Rightarrow>
          if py_num v = Some i then
            (case py_getitem t ''isDone'' of
               Inl e \<Rightarrow> Inl e
             | Inr d \<Rightarrow>
                 if \<not> py_truthy d
                 then Inr (True, True, py_setitem t ''isDone'' (JBool True) # ts)
                 else Inr (True, False, t # ts))
          else
            (case complete_scan ts i of
               Inl e \<Rightarrow> Inl e
             | Inr (found, changed, ts') \<Rightarrow> Inr (found, changed, t # ts')))"

text \<open>
  \<open>complete_task\<close>. The loop raises before it changes anything; an exception out of
  \<open>save\<close> comes after the flag is set.
\<close>

definition complete_task ::
  "py_lib \<Rightarrow> task_manager \<Rightarrow> int \<Rightarrow> (py_exc \<times> task_manager) + (bool \<times> task_manager)" where
  "complete_task J m task_id =
     (case tasks m of
        JArr ts \<Rightarrow>
          (case complete_scan ts task_id of
             Inl e \<Rightarrow> Inl (e, m)
           | Inr (found, changed, ts') \<Rightarrow>
               if changed then
                 (case save J (m\<lparr>tasks := JArr ts'\<rparr>) of
                    Inl (e, m') \<Rightarrow> Inl (e, m')
                  | Inr m' \<Rightarrow> Inr (found, m'))
               else Inr (found, m))
      | JObj kvs \<Rightarrow> (if kvs = [] then Inr (False, m) else Inl (TypeError_or_KeyError, m))
      | JStr s \<Rightarrow> (if s = [] then Inr (False, m) else Inl (TypeError_or_KeyError, m))
      | _ \<Rightarrow> Inl (TypeError_or_KeyError, m))"

definition get_all :: "task_manager \<Rightarrow> json" where
  "get_all m = tasks m"

text \<open>The manager after a call, whether the call returned or raised.\<close>

definition state_after :: "(py_exc \<times> task_manager) + ('a \<times> task_manager) \<Rightarrow> task_manager" where
  "state_after r = (case r of Inl (e, m) \<Rightarrow> m | Inr (x, m) \<Rightarrow> m)"

section \<open>\<open>TaskHandler\<close>\<close>

text \<open>
  A request as the handler sees it: the command (method), the path, the value of the
  \<open>Content-Length\<close> header if there is one, and the bytes the client sends after the
  headers. The server decodes the request line and the headers as ISO-8859-1, so each
  character of \<open>path\<close> and \<open>content_length\<close> is one byte.
\<close>

record request =
  command :: string
  path :: string
  content_length :: "string option"
  rfile :: string

text \<open>\<open>s.strip('/')\<close> and \<open>s.split('/')\<close>.\<close>

definition py_strip :: "(char \<Rightarrow> bool) \<Rightarrow> string \<Rightarrow> string" where
  "py_strip p s = rev (dropWhile p (rev (dropWhile p s)))"

fun py_split :: "char \<Rightarrow> string \<Rightarrow> string list" where
  "py_split sep [] = [[]]"
| "py_split sep (c # cs) =
     (if c = sep then [] # py_split sep cs
      else (case py_split sep cs of [] \<Rightarrow> [[c]] | x # xs \<Rightarrow> (c # x) # xs))"

text \<open>
  \<open>int(s)\<close> on a string: white space around the number is dropped, then an optional sign,
  then decimal digits, where single underscores may stand between digits; more than 4300
  digits are refused (Python 3.11 and later). \<open>None\<close> is \<open>ValueError\<close>.
\<close>

definition py_isspace :: "char \<Rightarrow> bool" where
  "py_isspace c = (of_char c \<in> {9, 10, 11, 12, 13, 32, 133, 160 :: nat})"

definition py_isdigit :: "char \<Rightarrow> bool" where
  "py_isdigit c = (48 \<le> (of_char c :: nat) \<and> (of_char c :: nat) \<le> 57)"

fun py_digits :: "nat \<Rightarrow> bool \<Rightarrow> string \<Rightarrow> nat option" where
  "py_digits acc after_digit [] = (if after_digit then Some acc else None)"
| "py_digits acc after_digit (c # cs) =
     (if py_isdigit c then py_digits (10 * acc + (of_char c - 48)) True cs
      else if c = CHR ''_'' \<and> after_digit then py_digits acc False cs
      else None)"

definition max_str_digits :: nat where
  "max_str_digits = 4300"

definition py_unsigned :: "string \<Rightarrow> nat option" where
  "py_unsigned cs =
     (if length (filter py_isdigit cs) > max_str_digits then None
      else py_digits 0 False cs)"

definition py_int :: "string \<Rightarrow> int option" where
  "py_int s =
     (case py_strip py_isspace s of
        [] \<Rightarrow> None
      | c # cs \<Rightarrow>
          if c = CHR ''-'' then map_option (\<lambda>n. - int n) (py_unsigned cs)
          else if c = CHR ''+'' then map_option int (py_unsigned cs)
          else map_option int (py_unsigned (c # cs)))"

text \<open>
  \<open>send_response(code); end_headers()\<close>, \<open>_send_error\<close> and \<open>_send_json_response\<close>. In
  the last one the status line and the headers have gone out when
  \<open>json.dumps(data).encode()\<close> raises; the model gives the exception only.
\<close>

definition send_empty :: "nat \<Rightarrow> response" where
  "send_empty code = \<lparr>status = code, headers = [], body = []\<rparr>"

definition send_error :: "nat \<Rightarrow> string \<Rightarrow> response" where
  "send_error code message = \<lparr>status = code, headers = [], body = message\<rparr>"

definition send_json_response :: "py_lib \<Rightarrow> nat \<Rightarrow> json \<Rightarrow> py_exc + response" where
  "send_json_response J code data =
     (case json_dumps J data of
        Inl e \<Rightarrow> Inl e
      | Inr bs \<Rightarrow>
          Inr \<lparr>status = code, headers = [(''Content-Type'', ''application/json'')],
               body = bs\<rparr>)"

text \<open>
  \<open>rfile.read(n)\<close> on the buffered reader of the connection: at most \<open>n\<close> bytes,
  everything the client sends when \<open>n\<close> is \<open>-1\<close>, and \<open>ValueError\<close> when \<open>n\<close> is below
  \<open>-1\<close>.
\<close>

definition rfile_read :: "string \<Rightarrow> int \<Rightarrow> py_exc + string" where
  "rfile_read bs n =
     (if n < - 1 then Inl ValueError else if n = - 1 then Inr bs else Inr (take (nat n) bs))"

definition do_GET ::
  "py_lib \<Rightarrow> task_manager \<Rightarrow> request \<Rightarrow>
   (py_exc \<times> task_manager) + (response \<times> task_manager)" where
  "do_GET J m rq =
     (if path rq = ''/tasks'' then
        (case send_json_response J 200 (get_all m) of
           Inl e \<Rightarrow> Inl (e, m)
         | Inr r \<Rightarrow> Inr (r, m))
      else Inr (send_empty 404, m))"

text \<open>
  \<open>_handle_create_task\<close>. \<open>int\<close> of the header and \<open>rfile.read\<close> are outside the \<open>try\<close>,
  and the \<open>try\<close> catches \<open>json.JSONDecodeError\<close> only.
\<close>

definition handle_create_task ::
  "py_lib \<Rightarrow> task_manager \<Rightarrow> request \<Rightarrow>
   (py_exc \<times> task_manager) + (response \<times> task_manager)" where
  "handle_create_task J m rq =
     (case (case content_length rq of None \<Rightarrow> Some 0 | Some h \<Rightarrow> py_int h) of
        None \<Rightarrow> Inl (ValueError, m)
      | Some n \<Rightarrow>
          (case rfile_read (rfile rq) n of
             Inl e \<Rightarrow> Inl (e, m)
           | Inr bs \<Rightarrow>
          (case json_loads J bs of
             Inl e \<Rightarrow>
               if e = JSONDecodeError then Inr (send_error 400 ''Invalid JSON'', m)
               else Inl (e, m)
           | Inr data \<Rightarrow>
               (case py_get data ''title'' of
                  Inl e \<Rightarrow> Inl (e, m)
                | Inr title \<Rightarrow>
                    (case py_get data ''priority'' of
                       Inl e \<Rightarrow> Inl (e, m)
                     | Inr priority \<Rightarrow>
                         if \<not> py_truthy title \<or> \<not> py_truthy priority
                         then Inr (send_error 400 ''Missing title or priority'', m)
                         else if priority \<notin> set [JStr ''low'', JStr ''normal'', JStr ''high'']
                         then Inr (send_error 400 ''Priority must be low, normal, or high'', m)
                         else
                           (case create_task J m title priority of
                              Inl (e, m') \<Rightarrow> Inl (e, m')
                            | Inr (task, m') \<Rightarrow>
                                (case send_json_response J 201 task of
                                   Inl e \<Rightarrow> Inl (e, m')
                                 | Inr r \<Rightarrow> Inr (r, m'))))))))"

definition handle_complete_task ::
  "py_lib \<Rightarrow> task_manager \<Rightarrow> string \<Rightarrow>
   (py_exc \<times> task_manager) + (response \<times> task_manager)" where
  "handle_complete_task J m task_id_str =
     (case py_int task_id_str of
        None \<Rightarrow> Inr (send_empty 404, m)
      | Some task_id \<Rightarrow>
          (case complete_task J m task_id of
             Inl (e, m') \<Rightarrow> Inl (e, m')
           | Inr (found, m') \<Rightarrow>
               if found then Inr (send_empty 200, m') else Inr (send_empty 404, m')))"

definition do_POST ::
  "py_lib \<Rightarrow> task_manager \<Rightarrow> request \<Rightarrow>
   (py_exc \<times> task_manager) + (response \<times> task_manager)" where
  "do_POST J m rq =
     (let parts = py_split CHR ''/'' (py_strip (\<lambda>c. c = CHR ''/'') (path rq)) in
      if parts = [''tasks''] then handle_create_task J m rq
      else if length parts = 3 \<and> parts ! 0 = ''tasks'' \<and> parts ! 2 = ''complete''
      then handle_complete_task J m (parts ! 1)
      else Inr (send_empty 404, m))"

text \<open>
  The dispatch of the base class \<open>BaseHTTPRequestHandler\<close> (Python's standard library, not
  part of \<open>server.py\<close>): a request with command \<open>C\<close> goes to the method \<open>do_C\<close>, and a
  handler without that method answers 501. \<open>TaskHandler\<close> defines \<open>do_GET\<close> and \<open>do_POST\<close>.
\<close>

definition handle_one_request ::
  "py_lib \<Rightarrow> task_manager \<Rightarrow> request \<Rightarrow>
   (py_exc \<times> task_manager) + (response \<times> task_manager)" where
  "handle_one_request J m rq =
     (if command rq = ''GET'' then do_GET J m rq
      else if command rq = ''POST'' then do_POST J m rq
      else Inr (\<lparr>status = 501, headers = fst (unsupported_method J (command rq)),
                 body = snd (unsupported_method J (command rq))\<rparr>, m))"

section \<open>Notions used to state the properties\<close>

text \<open>
  The id of a task as a number, whether a task counts as done, and whether it has the
  entries that \<open>complete_task\<close> reads.
\<close>

definition task_id :: "json \<Rightarrow> int option" where
  "task_id t = (case py_getitem t ''id'' of Inl e \<Rightarrow> None | Inr v \<Rightarrow> py_num v)"

definition is_done :: "json \<Rightarrow> bool" where
  "is_done t = (case py_getitem t ''isDone'' of Inl e \<Rightarrow> False | Inr d \<Rightarrow> py_truthy d)"

definition has_id :: "json \<Rightarrow> bool" where
  "has_id t = (case py_getitem t ''id'' of Inl e \<Rightarrow> False | Inr v \<Rightarrow> True)"

definition has_isDone :: "json \<Rightarrow> bool" where
  "has_isDone t = (case py_getitem t ''isDone'' of Inl e \<Rightarrow> False | Inr d \<Rightarrow> True)"

text \<open>What \<open>complete_task\<close> does to a task it changes.\<close>

definition mark_done :: "int \<Rightarrow> json \<Rightarrow> json" where
  "mark_done i t =
     (if task_id t = Some i then py_setitem t ''isDone'' (JBool True) else t)"

text \<open>
  The task that \<open>create_task\<close> is to make on a collection whose ids are \<open>ns\<close>: its id is
  the maximum of the ids, or 0 when there is none, plus 1.
\<close>

definition next_id :: "int list \<Rightarrow> int" where
  "next_id ns = (if ns = [] then 0 else Max (set ns)) + 1"

definition new_task :: "int list \<Rightarrow> json \<Rightarrow> json \<Rightarrow> json" where
  "new_task ns title priority =
     JObj [(''id'', JInt (next_id ns)), (''title'', title), (''priority'', priority),
           (''isDone'', JBool False)]"

text \<open>Writing the collection raises something that \<open>save\<close> does not catch.\<close>

definition dump_raises :: "py_lib \<Rightarrow> json \<Rightarrow> bool" where
  "dump_raises J v = (case json_dump J v of Inl (e, written) \<Rightarrow> e \<noteq> OSError | Inr bs \<Rightarrow> False)"

text \<open>
  A caller that makes one \<open>create_task\<close> call after another and goes on when a call
  raises, as the server does after a request whose handler raised.
\<close>

fun create_all :: "py_lib \<Rightarrow> task_manager \<Rightarrow> (json \<times> json) list \<Rightarrow> task_manager" where
  "create_all J m [] = m"
| "create_all J m ((title, priority) # args) =
     create_all J (state_after (create_task J m title priority)) args"



text \<open>
  The routes as \<open>do_GET\<close> and \<open>do_POST\<close> match them: \<open>GET\<close> compares the whole path,
  \<open>POST\<close> drops the slashes at both ends of the path first.
\<close>

definition post_parts :: "request \<Rightarrow> string list" where
  "post_parts rq = py_split CHR ''/'' (py_strip (\<lambda>c. c = CHR ''/'') (path rq))"

definition matches_route :: "request \<Rightarrow> bool" where
  "matches_route rq =
     (command rq = ''GET'' \<and> path rq = ''/tasks'' \<or>
      command rq = ''POST'' \<and>
        (post_parts rq = [''tasks''] \<or>
         length (post_parts rq) = 3 \<and> post_parts rq ! 0 = ''tasks'' \<and>
         post_parts rq ! 2 = ''complete''))"

text \<open>
  The library on the few inputs that the examples below use. Reading: the JSON texts
  \<open>[]\<close>, \<open>5\<close> and two request bodies, the second with the escape of the lone surrogate
  U+D800 as title, and the byte \<open>0xFF\<close>, which is not UTF-8; any other text counts as
  malformed here. Writing: a list with the task whose title is that surrogate raises
  \<open>UnicodeEncodeError\<close> when its title is reached, after the text before it is written;
  any other value not in the table is written as the empty text here.
\<close>

definition surrogate :: string where
  "surrogate = [CHR 0xED, CHR 0xA0, CHR 0x80]"

definition sample_texts :: "(string \<times> json) list" where
  \<open>sample_texts =
     [(''[]'', JArr []),
      (''5'', JInt 5),
      (''{"title":"Buy milk","priority":"low"}'',
       JObj [(''title'', JStr ''Buy milk''), (''priority'', JStr ''low'')]),
      (''{"title":"'' @ [CHR 0x5C] @ ''ud800","priority":"low"}'',
       JObj [(''title'', JStr surrogate), (''priority'', JStr ''low'')])]\<close>

definition sample_parse :: "string \<Rightarrow> py_exc + json" where
  "sample_parse bs =
     (case map_of sample_texts bs of
        Some v \<Rightarrow> Inr v
      | None \<Rightarrow> if bs = [CHR 0xFF] then Inl UnicodeDecodeError else Inl JSONDecodeError)"

definition surrogate_task :: "bool \<Rightarrow> json" where
  "surrogate_task b =
     JObj [(''id'', JInt 1), (''title'', JStr surrogate), (''priority'', JStr ''low''),
           (''isDone'', JBool b)]"

definition written_before_title :: string where
  \<open>written_before_title =
     ''['' @ [CHR 0x0A] @ ''  {'' @ [CHR 0x0A] @ ''    "id": 1,'' @ [CHR 0x0A] @
     ''    "title": ''\<close>

definition sample_print :: "json \<Rightarrow> (py_exc \<times> string) + string" where
  "sample_print v =
     (if v = JArr [surrogate_task False] \<or> v = JArr [surrogate_task True]
      then Inl (UnicodeEncodeError, written_before_title)
      else case find (\<lambda>p. snd p = v) sample_texts of
             Some p \<Rightarrow> Inr (fst p)
           | None \<Rightarrow> Inr [])"

definition sample_prints :: "json \<Rightarrow> py_exc + string" where
  "sample_prints v =
     (case sample_print v of Inl (e, written) \<Rightarrow> Inl e | Inr bs \<Rightarrow> Inr bs)"

definition sample_lib :: py_lib where
  "sample_lib =
     \<lparr>json_dump = sample_print, json_load = sample_parse, json_loads = sample_parse,
      json_dumps = sample_prints, unsupported_method = (\<lambda>c. ([], []))\<rparr>"

definition sample_disk :: disk where
  "sample_disk =
     \<lparr>present = False, readable = True, bytes = [], write_mode = Write_ok, writes = 0\<rparr>"

text \<open>A store with one task that is not done, on a file that does not exist yet.\<close>

definition sample_task :: json where
  "sample_task =
     JObj [(''id'', JInt 1), (''title'', JStr ''Buy milk''), (''priority'', JStr ''low''),
           (''isDone'', JBool False)]"

definition sample_store :: task_manager where
  "sample_store = \<lparr>tasks = JArr [sample_task], disk = sample_disk\<rparr>"

text \<open>
  The store after \<open>POST /tasks\<close> with the surrogate title on an empty store: the task is
  in memory, and the file holds what was written before the title.
\<close>

definition surrogate_store :: task_manager where
  "surrogate_store =
     \<lparr>tasks = JArr [surrogate_task False],
      disk = sample_disk\<lparr>present := True, bytes := written_before_title, writes := 1\<rparr>\<rparr>"

section \<open>Creating tasks\<close>

lemma max_default_eq: "max_default ns = (if ns = [] then 0 else Max (set ns))"
proof (cases ns)
  case Nil
  then show ?thesis by simp
next
  case (Cons a list)
  then show ?thesis using Max.set_eq_fold [of a list] by simp
qed

lemma max_default_snoc: "max_default (ns @ [max_default ns + 1]) = max_default ns + 1"
  by (cases ns) simp_all

lemma task_ids_map: "task_ids ts = Inr ns \<Longrightarrow> map task_id ts = map Some ns"
  by (induction ts arbitrary: ns) (auto simp: task_id_def split: sum.splits option.splits)

lemma task_ids_of_map: "map task_id ts = map Some ns \<Longrightarrow> task_ids ts = Inr ns"
  by (induction ts arbitrary: ns) (auto simp: task_id_def split: sum.splits option.splits)

lemma save_state:
  "(\<exists>m'. save J m = Inr m' \<and> tasks m' = tasks m \<and>
      writes (disk m') = Suc (writes (disk m))) \<or>
   (\<exists>e m'. save J m = Inl (e, m') \<and> tasks m' = tasks m \<and>
      writes (disk m') = Suc (writes (disk m)) \<and>
      write_mode (disk m) = Write_ok \<and> dump_raises J (tasks m))"
proof (cases "write_mode (disk m)")
  case Write_ok
  show ?thesis
  proof (cases "json_dump J (tasks m)")
    case (Inl p)
    obtain e written where p: "p = (e, written)" by (cases p)
    show ?thesis
      using Write_ok Inl p by (cases "e = OSError") (simp_all add: save_def dump_raises_def)
  next
    case (Inr bs)
    then show ?thesis using Write_ok by (simp add: save_def)
  qed
next
  case Open_fails
  then show ?thesis by (simp add: save_def)
next
  case (Write_fails left)
  then show ?thesis by (simp add: save_def)
qed

lemma save_returns: "\<not> dump_raises J (tasks m) \<Longrightarrow> \<exists>m'. save J m = Inr m'"
  using save_state [of J m] by auto

lemma save_Inr: "save J m = Inr m' \<Longrightarrow> tasks m' = tasks m"
  using save_state [of J m] by auto

lemma save_Inl: "save J m = Inl (e, m') \<Longrightarrow> tasks m' = tasks m"
  using save_state [of J m] by auto

lemma create_task_unfold:
  assumes "tasks m = JArr ts" and "task_ids ts = Inr ns"
  shows "create_task J m title priority =
           (case save J (m\<lparr>tasks := JArr (ts @ [new_task ns title priority])\<rparr>) of
              Inl (e, m') \<Rightarrow> Inl (e, m')
            | Inr m' \<Rightarrow> Inr (new_task ns title priority, m'))"
proof -
  have nt: "JObj [(''id'', JInt (max_default ns + 1)), (''title'', title),
                  (''priority'', priority), (''isDone'', JBool False)] =
            new_task ns title priority"
    by (simp add: new_task_def next_id_def max_default_eq)
  show ?thesis using assms
    by (auto simp: create_task_def Let_def nt split: sum.splits)
qed

lemma create_task_state:
  assumes "tasks m = JArr ts" and "task_ids ts = Inr ns"
  shows "tasks (state_after (create_task J m title priority)) =
           JArr (ts @ [new_task ns title priority])"
  unfolding create_task_unfold [OF assms]
  using save_state [of J "m\<lparr>tasks := JArr (ts @ [new_task ns title priority])\<rparr>"]
  by (auto simp: state_after_def)

lemma next_id_snoc: "next_id (ns @ [next_id ns]) = next_id ns + 1"
  using max_default_snoc [of ns] by (simp add: next_id_def max_default_eq)

lemma create_all_tasks:
  "tasks m = JArr ts \<Longrightarrow> task_ids ts = Inr ns \<Longrightarrow>
   \<exists>created. tasks (create_all J m args) = JArr (ts @ created) \<and>
     map task_id created = map (\<lambda>j. Some (next_id ns - 1 + int j)) [1..<Suc (length args)] \<and>
     map (\<lambda>t. py_getitem t ''title'') created = map (\<lambda>a. Inr (fst a)) args \<and>
     map (\<lambda>t. py_getitem t ''priority'') created = map (\<lambda>a. Inr (snd a)) args"
proof (induction args arbitrary: m ts ns)
  case Nil
  then show ?case by simp
next
  case (Cons a args)
  obtain title priority where a: "a = (title, priority)" by (cases a)
  let ?t = "new_task ns title priority"
  let ?m = "state_after (create_task J m title priority)"
  have t: "tasks ?m = JArr (ts @ [?t])"
    using Cons.prems by (rule create_task_state)
  have tid: "task_id ?t = Some (next_id ns)"
    by (simp add: task_id_def new_task_def)
  have i: "task_ids (ts @ [?t]) = Inr (ns @ [next_id ns])"
    by (rule task_ids_of_map) (simp add: task_ids_map [OF Cons.prems(2)] tid)
  from Cons.IH [OF t i] obtain created where
    r: "tasks (create_all J ?m args) = JArr ((ts @ [?t]) @ created)" and
    ids: "map task_id created =
       map (\<lambda>j. Some (next_id (ns @ [next_id ns]) - 1 + int j)) [1..<Suc (length args)]" and
    ti: "map (\<lambda>t. py_getitem t ''title'') created = map (\<lambda>a. Inr (fst a)) args" and
    pr: "map (\<lambda>t. py_getitem t ''priority'') created = map (\<lambda>a. Inr (snd a)) args"
    by blast
  have "map (\<lambda>j. Some (next_id ns - 1 + int j)) [1..<Suc (length (a # args))] =
        Some (next_id ns) # map (\<lambda>j. Some (next_id ns + int j)) [1..<Suc (length args)]"
    by (simp add: upt_conv_Cons map_Suc_upt [symmetric] del: upt_Suc)
  moreover have "py_getitem ?t ''title'' = Inr title" "py_getitem ?t ''priority'' = Inr priority"
    by (simp_all add: new_task_def)
  ultimately have
    "tasks (create_all J m (a # args)) = JArr (ts @ (?t # created)) \<and>
     map task_id (?t # created) =
       map (\<lambda>j. Some (next_id ns - 1 + int j)) [1..<Suc (length (a # args))] \<and>
     map (\<lambda>t. py_getitem t ''title'') (?t # created) = map (\<lambda>a. Inr (fst a)) (a # args) \<and>
     map (\<lambda>t. py_getitem t ''priority'') (?t # created) = map (\<lambda>a. Inr (snd a)) (a # args)"
    using r ids ti pr tid by (simp add: a next_id_snoc del: upt_Suc)
  then show ?case by blast
qed

text \<open>
  C1. On a store whose tasks are dictionaries with the integer ids \<open>ns\<close>, \<open>create_task\<close>
  appends a task whose id is the maximum of \<open>ns\<close> (0 when there is no task) plus 1,
  with the given title and priority, whatever these are: the collection after the call
  is the old one followed by this task, also when \<open>save\<close> raises; when the call returns
  it returns this task, and it returns whenever writing the new collection does not
  raise. Hence after any sequence of \<open>create_task\<close> calls on the empty collection the
  tasks have the ids 1, 2, ..., N and the given titles and priorities, in the order of
  the calls.
\<close>

theorem create_task_assigns_next_id:
  assumes "tasks m = JArr ts" and "map task_id ts = map Some ns"
  shows "tasks (state_after (create_task J m title priority)) =
           JArr (ts @ [new_task ns title priority]) \<and>
         (\<forall>t m'. create_task J m title priority = Inr (t, m') \<longrightarrow>
            t = new_task ns title priority) \<and>
         (\<not> dump_raises J (JArr (ts @ [new_task ns title priority])) \<longrightarrow>
            (\<exists>m'. create_task J m title priority = Inr (new_task ns title priority, m'))) \<and>
         (ts = [] \<longrightarrow>
            (\<exists>created. tasks (create_all J m args) = JArr created \<and>
               map task_id created = map (\<lambda>j. Some (int j)) [1..<Suc (length args)] \<and>
               map (\<lambda>t. py_getitem t ''title'') created = map (\<lambda>a. Inr (fst a)) args \<and>
               map (\<lambda>t. py_getitem t ''priority'') created = map (\<lambda>a. Inr (snd a)) args))"
proof -
  have ids: "task_ids ts = Inr ns" using assms(2) by (rule task_ids_of_map)
  let ?t = "new_task ns title priority"
  let ?m1 = "m\<lparr>tasks := JArr (ts @ [?t])\<rparr>"
  note unf = create_task_unfold [OF assms(1) ids, of J title priority]
  have 1: "tasks (state_after (create_task J m title priority)) = JArr (ts @ [?t])"
    using assms(1) ids by (rule create_task_state)
  have 2: "\<forall>t m'. create_task J m title priority = Inr (t, m') \<longrightarrow> t = ?t"
    unfolding unf by (auto split: sum.splits)
  have 3: "\<not> dump_raises J (JArr (ts @ [?t])) \<longrightarrow>
      (\<exists>m'. create_task J m title priority = Inr (?t, m'))"
  proof
    assume "\<not> dump_raises J (JArr (ts @ [?t]))"
    then have "\<not> dump_raises J (tasks ?m1)" by simp
    from save_returns [OF this] obtain m' where "save J ?m1 = Inr m'" by blast
    then show "\<exists>m'. create_task J m title priority = Inr (?t, m')"
      unfolding unf by simp
  qed
  have 4: "ts = [] \<longrightarrow>
      (\<exists>created. tasks (create_all J m args) = JArr created \<and>
         map task_id created = map (\<lambda>j. Some (int j)) [1..<Suc (length args)] \<and>
         map (\<lambda>t. py_getitem t ''title'') created = map (\<lambda>a. Inr (fst a)) args \<and>
         map (\<lambda>t. py_getitem t ''priority'') created = map (\<lambda>a. Inr (snd a)) args)"
  proof
    assume "ts = []"
    with assms(1) have "tasks m = JArr []" and "task_ids [] = Inr []" by simp_all
    from create_all_tasks [OF this, of J args] show
      "\<exists>created. tasks (create_all J m args) = JArr created \<and>
         map task_id created = map (\<lambda>j. Some (int j)) [1..<Suc (length args)] \<and>
         map (\<lambda>t. py_getitem t ''title'') created = map (\<lambda>a. Inr (fst a)) args \<and>
         map (\<lambda>t. py_getitem t ''priority'') created = map (\<lambda>a. Inr (snd a)) args"
      by (simp add: next_id_def)
  qed
  from 1 2 3 4 show ?thesis by (intro conjI)
qed

theorem create_task_assigns_next_id_witness:
  "tasks \<lparr>tasks = JArr [JObj [(''id'', JInt 3)], JObj [(''id'', JInt 7)], JObj [(''id'', JInt 2)]],
          disk = sample_disk\<rparr> =
     JArr [JObj [(''id'', JInt 3)], JObj [(''id'', JInt 7)], JObj [(''id'', JInt 2)]] \<and>
   map task_id [JObj [(''id'', JInt 3)], JObj [(''id'', JInt 7)], JObj [(''id'', JInt 2)]] =
     map Some [3, 7, 2] \<and>
   tasks (state_after (create_task sample_lib
      \<lparr>tasks = JArr [JObj [(''id'', JInt 3)], JObj [(''id'', JInt 7)], JObj [(''id'', JInt 2)]],
        disk = sample_disk\<rparr> (JStr ''a'') (JStr ''low''))) =
     JArr [JObj [(''id'', JInt 3)], JObj [(''id'', JInt 7)], JObj [(''id'', JInt 2)],
           JObj [(''id'', JInt 8), (''title'', JStr ''a''), (''priority'', JStr ''low''),
                 (''isDone'', JBool False)]] \<and>
   tasks \<lparr>tasks = JArr [], disk = sample_disk\<rparr> = JArr [] \<and>
   (\<exists>created.
      tasks (create_all sample_lib \<lparr>tasks = JArr [], disk = sample_disk\<rparr>
        [(JStr ''a'', JStr ''low''), (JStr surrogate, JNull)]) = JArr created \<and>
      map task_id created = [Some 1, Some 2] \<and>
      map (\<lambda>t. py_getitem t ''title'') created = [Inr (JStr ''a''), Inr (JStr surrogate)] \<and>
      map (\<lambda>t. py_getitem t ''priority'') created = [Inr (JStr ''low''), Inr JNull])"
proof -
  let ?ts = "[JObj [(''id'', JInt 3)], JObj [(''id'', JInt 7)], JObj [(''id'', JInt 2)]]"
  let ?m = "\<lparr>tasks = JArr ?ts, disk = sample_disk\<rparr>"
  let ?em = "\<lparr>tasks = JArr [], disk = sample_disk\<rparr>"
  have i: "map task_id ?ts = map Some [3, 7, 2]" by (simp add: task_id_def)
  have n: "next_id [3, 7, 2] = 8" by (simp add: next_id_def)
  have a: "tasks (state_after (create_task sample_lib ?m (JStr ''a'') (JStr ''low''))) =
     JArr (?ts @ [new_task [3, 7, 2] (JStr ''a'') (JStr ''low'')])"
    using create_task_assigns_next_id [of ?m ?ts "[3, 7, 2]" sample_lib "JStr ''a''" "JStr ''low''"] i
    by simp
  have e1: "tasks ?em = JArr []" by simp
  have e2: "map task_id [] = map Some []" by simp
  note th = create_task_assigns_next_id [OF e1 e2, of sample_lib JNull JNull
        "[(JStr ''a'', JStr ''low''), (JStr surrogate, JNull)]"]
  from th [THEN conjunct2, THEN conjunct2, THEN conjunct2]
  have b: "\<exists>created.
      tasks (create_all sample_lib ?em [(JStr ''a'', JStr ''low''), (JStr surrogate, JNull)]) =
        JArr created \<and>
      map task_id created = [Some 1, Some 2] \<and>
      map (\<lambda>t. py_getitem t ''title'') created = [Inr (JStr ''a''), Inr (JStr surrogate)] \<and>
      map (\<lambda>t. py_getitem t ''priority'') created = [Inr (JStr ''low''), Inr JNull]"
    by (simp del: create_all.simps)
  show ?thesis using i a b by (simp add: new_task_def n del: create_all.simps)
qed

section \<open>Completing tasks\<close>

lemma getitem_setitem_same:
  "py_getitem t k = Inr d \<Longrightarrow> py_getitem (py_setitem t k v) k = Inr v"
  by (cases t) (simp_all add: update_conv')

lemma getitem_setitem_other:
  "k' \<noteq> k \<Longrightarrow> py_getitem (py_setitem t k v) k' = py_getitem t k'"
  by (cases t) (simp_all add: update_conv')

lemma complete_scan_absent:
  "\<forall>t\<in>set ts. (\<exists>v. py_getitem t ''id'' = Inr v) \<and> task_id t \<noteq> Some i \<Longrightarrow>
   complete_scan ts i = Inr (False, False, ts)"
  by (induction ts) (auto simp: task_id_def)

lemma complete_scan_again:
  "complete_scan ts i = Inr (True, c, ts') \<Longrightarrow> complete_scan ts' i = Inr (True, False, ts')"
proof (induction ts arbitrary: ts' c)
  case Nil
  then show ?case by simp
next
  case (Cons t ts)
  then show ?case
    by (auto simp: getitem_setitem_same getitem_setitem_other
             split: sum.splits if_splits prod.splits)
qed

lemma complete_scan_unchanged:
  "complete_scan ts i = Inr (f, False, ts') \<Longrightarrow> ts' = ts"
  by (induction ts arbitrary: ts' f) (auto split: sum.splits if_splits prod.splits)

lemma is_done_setitem:
  "py_getitem t ''isDone'' = Inr d \<Longrightarrow> is_done (py_setitem t ''isDone'' (JBool True))"
  by (simp add: is_done_def getitem_setitem_same)

lemma complete_scan_monotone:
  "complete_scan ts i = Inr (f, c, ts') \<Longrightarrow>
   list_all2 (\<lambda>t t'. is_done t \<longrightarrow> is_done t') ts ts'"
proof (induction ts arbitrary: ts' f c)
  case Nil
  then show ?case by simp
next
  case (Cons t ts)
  then show ?case
    by (auto simp: is_done_setitem list.rel_refl
             split: sum.splits if_splits prod.splits)
qed

lemma mark_done_absent:
  assumes "\<forall>t\<in>set ts. task_id t \<noteq> Some i"
  shows "map (mark_done i) ts = ts"
  using assms by (simp add: mark_done_def map_idI)

lemma complete_scan_distinct:
  "list_all has_id ts \<Longrightarrow> list_all has_isDone ts \<Longrightarrow> distinct (map task_id ts) \<Longrightarrow>
   complete_scan ts i =
     Inr (\<exists>t\<in>set ts. task_id t = Some i, (\<exists>t\<in>set ts. task_id t = Some i \<and> \<not> is_done t),
          if (\<exists>t\<in>set ts. task_id t = Some i \<and> \<not> is_done t)
          then map (mark_done i) ts else ts)"
proof (induction ts)
  case Nil
  then show ?case by simp
next
  case (Cons t ts)
  from Cons.prems(1) obtain v where v: "py_getitem t ''id'' = Inr v"
    by (auto simp: has_id_def split: sum.splits)
  from Cons.prems(2) obtain d where d: "py_getitem t ''isDone'' = Inr d"
    by (auto simp: has_isDone_def split: sum.splits)
  have tid: "task_id t = py_num v" using v by (simp add: task_id_def)
  have dn: "is_done t = py_truthy d" using d by (simp add: is_done_def)
  show ?case
  proof (cases "py_num v = Some i")
    case True
    then have "Some i \<notin> set (map task_id ts)" using Cons.prems(3) tid by simp
    then have no: "\<forall>u\<in>set ts. task_id u \<noteq> Some i" by force
    note rest = mark_done_absent [OF no]
    show ?thesis
      using True v d tid dn rest no by (auto simp: mark_done_def)
  next
    case False
    have ih: "complete_scan ts i =
       Inr (\<exists>t\<in>set ts. task_id t = Some i, (\<exists>t\<in>set ts. task_id t = Some i \<and> \<not> is_done t),
          if (\<exists>t\<in>set ts. task_id t = Some i \<and> \<not> is_done t)
          then map (mark_done i) ts else ts)"
      using Cons.IH Cons.prems by simp
    show ?thesis
      using False v tid by (auto simp: ih mark_done_def)
  qed
qed

lemma is_done_mark_done:
  "has_isDone t \<Longrightarrow> task_id t = Some i \<Longrightarrow> is_done (mark_done i t)"
  by (auto simp: has_isDone_def mark_done_def is_done_setitem split: sum.splits)

lemma complete_scan_total:
  "list_all has_id ts \<Longrightarrow> list_all has_isDone ts \<Longrightarrow>
   \<exists>c ts'. complete_scan ts i = Inr (\<exists>t\<in>set ts. task_id t = Some i, c, ts')"
proof (induction ts)
  case Nil
  then show ?case by auto
next
  case (Cons t ts)
  from Cons.prems(1) obtain v where v: "py_getitem t ''id'' = Inr v"
    by (auto simp: has_id_def split: sum.splits)
  from Cons.prems(2) obtain d where d: "py_getitem t ''isDone'' = Inr d"
    by (auto simp: has_isDone_def split: sum.splits)
  from Cons.IH Cons.prems obtain c ts' where
    "complete_scan ts i = Inr (\<exists>t\<in>set ts. task_id t = Some i, c, ts')" by auto
  then show ?case using v d by (auto simp: task_id_def)
qed

lemma complete_task_unfold:
  assumes "tasks m = JArr ts" and "complete_scan ts i = Inr (f, c, ts')"
  shows "complete_task J m i =
           (if c then (case save J (m\<lparr>tasks := JArr ts'\<rparr>) of
                         Inl (e, m') \<Rightarrow> Inl (e, m')
                       | Inr m' \<Rightarrow> Inr (f, m'))
            else Inr (f, m))"
  using assms by (simp add: complete_task_def)

lemma complete_task_state:
  assumes "tasks m = JArr ts" and "complete_scan ts i = Inr (f, c, ts')"
  shows "tasks (state_after (complete_task J m i)) = JArr ts'"
proof (cases c)
  case True
  then show ?thesis
    unfolding complete_task_unfold [OF assms]
    using save_state [of J "m\<lparr>tasks := JArr ts'\<rparr>"]
    by (auto simp: state_after_def)
next
  case False
  then have "ts' = ts" using assms(2) complete_scan_unchanged [of ts i f ts'] by simp
  then show ?thesis
    unfolding complete_task_unfold [OF assms]
    using False assms(1) by (simp add: state_after_def)
qed

lemma complete_task_outcome:
  assumes "tasks m = JArr ts" and "complete_scan ts i = Inr (f, c, ts')"
  shows "complete_task J m i = Inr (f, state_after (complete_task J m i)) \<or>
         (\<exists>e. complete_task J m i = Inl (e, state_after (complete_task J m i)) \<and> c \<and>
              dump_raises J (JArr ts'))"
proof (cases c)
  case True
  then show ?thesis
    unfolding complete_task_unfold [OF assms]
    using save_state [of J "m\<lparr>tasks := JArr ts'\<rparr>"]
    by (auto simp: state_after_def)
next
  case False
  then show ?thesis
    unfolding complete_task_unfold [OF assms] by (simp add: state_after_def)
qed

lemma complete_task_monotone:
  assumes "tasks m = JArr ts"
  shows "\<exists>ts2. tasks (state_after (complete_task J m j)) = JArr ts2 \<and>
           list_all2 (\<lambda>t t'. is_done t \<longrightarrow> is_done t') ts ts2"
proof (cases "complete_scan ts j")
  case (Inl e)
  then have "complete_task J m j = Inl (e, m)"
    using assms by (simp add: complete_task_def)
  then show ?thesis using assms by (simp add: state_after_def list.rel_refl)
next
  case (Inr r)
  obtain f c ts' where r: "r = (f, c, ts')" by (cases r)
  have s: "complete_scan ts j = Inr (f, c, ts')" using Inr r by simp
  from complete_task_state [OF assms s] complete_scan_monotone [OF s]
  show ?thesis by blast
qed

text \<open>
  C3. On a store whose tasks are dictionaries with an \<open>id\<close> and an \<open>isDone\<close> entry, one
  of them with the given id: the first \<open>complete_task\<close> call returns \<open>True\<close>, or raises
  out of \<open>save\<close> after it has set the flag; either way a second call with the same id
  returns \<open>True\<close> and leaves the whole state as the first call left it, the collection
  and the file with its count of writes. No call of \<open>complete_task\<close>, returning or
  raising, turns a done task into one that is not done.
\<close>

theorem complete_task_idempotent:
  assumes "tasks m = JArr ts" and "list_all has_id ts" and "list_all has_isDone ts"
    and "\<exists>t\<in>set ts. task_id t = Some i"
  shows "(complete_task J m i = Inr (True, state_after (complete_task J m i)) \<or>
          (\<exists>e. complete_task J m i = Inl (e, state_after (complete_task J m i)) \<and>
               dump_raises J (tasks (state_after (complete_task J m i))))) \<and>
         complete_task J (state_after (complete_task J m i)) i =
           Inr (True, state_after (complete_task J m i)) \<and>
         (\<forall>j. \<exists>ts2. tasks (state_after (complete_task J m j)) = JArr ts2 \<and>
               list_all2 (\<lambda>t t'. is_done t \<longrightarrow> is_done t') ts ts2)"
proof -
  let ?m1 = "state_after (complete_task J m i)"
  from complete_scan_total [OF assms(2,3), of i] assms(4) obtain c ts' where
    s: "complete_scan ts i = Inr (True, c, ts')" by auto
  have t1: "tasks ?m1 = JArr ts'" using assms(1) s by (rule complete_task_state)
  have 1: "complete_task J m i = Inr (True, ?m1) \<or>
      (\<exists>e. complete_task J m i = Inl (e, ?m1) \<and> dump_raises J (tasks ?m1))"
    using complete_task_outcome [OF assms(1) s, of J] t1 by auto
  have again: "complete_scan ts' i = Inr (True, False, ts')"
    using s by (rule complete_scan_again)
  have 2: "complete_task J ?m1 i = Inr (True, ?m1)"
    using complete_task_unfold [OF t1 again, of J] by simp
  have 3: "\<forall>j. \<exists>ts2. tasks (state_after (complete_task J m j)) = JArr ts2 \<and>
               list_all2 (\<lambda>t t'. is_done t \<longrightarrow> is_done t') ts ts2"
    using complete_task_monotone [OF assms(1)] by blast
  from 1 2 3 show ?thesis by (intro conjI)
qed

theorem complete_task_idempotent_witness:
  "tasks surrogate_store = JArr [surrogate_task False] \<and>
   list_all has_id [surrogate_task False] \<and> list_all has_isDone [surrogate_task False] \<and>
   (\<exists>t\<in>set [surrogate_task False]. task_id t = Some 1) \<and>
   complete_task sample_lib (state_after (complete_task sample_lib surrogate_store 1)) 1 =
     Inr (True, state_after (complete_task sample_lib surrogate_store 1)) \<and>
   tasks sample_store = JArr [sample_task] \<and>
   list_all has_id [sample_task] \<and> list_all has_isDone [sample_task] \<and>
   (\<exists>t\<in>set [sample_task]. task_id t = Some 1) \<and>
   complete_task sample_lib (state_after (complete_task sample_lib sample_store 1)) 1 =
     Inr (True, state_after (complete_task sample_lib sample_store 1))"
proof -
  have a: "tasks surrogate_store = JArr [surrogate_task False] \<and>
     list_all has_id [surrogate_task False] \<and> list_all has_isDone [surrogate_task False] \<and>
     (\<exists>t\<in>set [surrogate_task False]. task_id t = Some 1)"
    by (simp add: surrogate_store_def surrogate_task_def has_id_def has_isDone_def task_id_def)
  have b: "tasks sample_store = JArr [sample_task] \<and>
     list_all has_id [sample_task] \<and> list_all has_isDone [sample_task] \<and>
     (\<exists>t\<in>set [sample_task]. task_id t = Some 1)"
    by (simp add: sample_store_def sample_task_def has_id_def has_isDone_def task_id_def)
  from a complete_task_idempotent [of surrogate_store "[surrogate_task False]" 1 sample_lib]
  have c: "complete_task sample_lib (state_after (complete_task sample_lib surrogate_store 1)) 1 =
     Inr (True, state_after (complete_task sample_lib surrogate_store 1))"
    by blast
  from b complete_task_idempotent [of sample_store "[sample_task]" 1 sample_lib]
  have d: "complete_task sample_lib (state_after (complete_task sample_lib sample_store 1)) 1 =
     Inr (True, state_after (complete_task sample_lib sample_store 1))"
    by blast
  from a b c d show ?thesis by (intro conjI) (elim conjE, assumption)+
qed

text \<open>
  C4. On a store whose tasks are dictionaries with an \<open>id\<close> entry, none of them equal to
  the given id, \<open>complete_task\<close> returns \<open>False\<close> and the state is what it was: the same
  collection, the same file, no write.
\<close>

theorem complete_task_unknown_id:
  assumes "tasks m = JArr ts"
    and "\<forall>t\<in>set ts. (\<exists>v. py_getitem t ''id'' = Inr v) \<and> task_id t \<noteq> Some i"
  shows "complete_task J m i = Inr (False, m)"
  using assms(1) complete_scan_absent [OF assms(2)]
  by (simp add: complete_task_def)

theorem complete_task_unknown_id_witness:
  "tasks sample_store = JArr [sample_task] \<and>
   (\<exists>v. py_getitem sample_task ''id'' = Inr v) \<and> task_id sample_task \<noteq> Some 999 \<and>
   complete_task sample_lib sample_store 999 = Inr (False, sample_store)"
  using complete_task_unknown_id [of sample_store "[sample_task]" 999 sample_lib]
  by (simp add: sample_store_def sample_task_def task_id_def)

lemma save_bytes:
  "save J m = Inr m' \<Longrightarrow> write_mode (disk m) = Write_ok \<Longrightarrow>
   json_dump J (tasks m) = Inr bs \<Longrightarrow> bytes (disk m') = bs"
  by (auto simp: save_def Let_def)

text \<open>
  What \<open>complete_task\<close> does when writing the new collection does not raise: on a store
  whose tasks are dictionaries with distinct ids and an \<open>isDone\<close> entry it returns \<open>True\<close>
  exactly when some task has the id; a task with the id that is not done (and no other
  task) gets \<open>isDone = True\<close> and \<open>save\<close> runs on the new collection, so the file holds
  what \<open>json.dump\<close> writes for it when the write succeeds; otherwise nothing changes.
\<close>

lemma complete_task_on_writable_store:
  assumes "tasks m = JArr ts" and "list_all has_id ts" and "list_all has_isDone ts"
    and "distinct (map task_id ts)"
    and "\<not> dump_raises J (JArr (map (mark_done i) ts))"
  shows "\<exists>found m'. complete_task J m i = Inr (found, m') \<and>
           (found \<longleftrightarrow> (\<exists>t\<in>set ts. task_id t = Some i)) \<and>
           (if \<exists>t\<in>set ts. task_id t = Some i \<and> \<not> is_done t
            then save J (m\<lparr>tasks := JArr (map (mark_done i) ts)\<rparr>) = Inr m' \<and>
                 tasks m' = JArr (map (mark_done i) ts) \<and>
                 (\<forall>t\<in>set ts. task_id t = Some i \<longrightarrow> is_done (mark_done i t)) \<and>
                 (\<forall>t\<in>set ts. task_id t \<noteq> Some i \<longrightarrow> mark_done i t = t) \<and>
                 writes (disk m') = Suc (writes (disk m)) \<and>
                 (\<forall>bs. write_mode (disk m) = Write_ok \<and>
                        json_dump J (tasks m') = Inr bs \<longrightarrow> bytes (disk m') = bs)
            else m' = m)"
proof -
  let ?c = "\<exists>t\<in>set ts. task_id t = Some i \<and> \<not> is_done t"
  let ?f = "\<exists>t\<in>set ts. task_id t = Some i"
  have scan: "complete_scan ts i = Inr (?f, ?c, if ?c then map (mark_done i) ts else ts)"
    using assms(2,3,4) by (rule complete_scan_distinct)
  note unf = complete_task_unfold [OF assms(1) scan, of J]
  show ?thesis
  proof (cases ?c)
    case True
    let ?m1 = "m\<lparr>tasks := JArr (map (mark_done i) ts)\<rparr>"
    have "\<not> dump_raises J (tasks ?m1)" using assms(5) by simp
    from save_returns [OF this] obtain m' where s: "save J ?m1 = Inr m'" by blast
    have r: "complete_task J m i = Inr (?f, m')"
      using unf True s by simp
    have t: "tasks m' = JArr (map (mark_done i) ts)"
      using save_Inr [OF s] by simp
    have d: "\<forall>t\<in>set ts. task_id t = Some i \<longrightarrow> is_done (mark_done i t)"
      using assms(3) by (auto simp: list_all_iff is_done_mark_done)
    have k: "\<forall>t\<in>set ts. task_id t \<noteq> Some i \<longrightarrow> mark_done i t = t"
      by (simp add: mark_done_def)
    have w: "writes (disk m') = Suc (writes (disk m))"
      using save_state [of J ?m1] s by auto
    have b: "\<forall>bs. write_mode (disk m) = Write_ok \<and> json_dump J (tasks m') = Inr bs \<longrightarrow>
        bytes (disk m') = bs"
    proof (intro allI impI, elim conjE)
      fix bs assume "write_mode (disk m) = Write_ok" and "json_dump J (tasks m') = Inr bs"
      then show "bytes (disk m') = bs"
        using save_bytes [OF s, of bs] t by simp
    qed
    have "complete_task J m i = Inr (?f, m') \<and> (?f \<longleftrightarrow> ?f) \<and>
         (save J ?m1 = Inr m' \<and> tasks m' = JArr (map (mark_done i) ts) \<and>
          (\<forall>t\<in>set ts. task_id t = Some i \<longrightarrow> is_done (mark_done i t)) \<and>
          (\<forall>t\<in>set ts. task_id t \<noteq> Some i \<longrightarrow> mark_done i t = t) \<and>
          writes (disk m') = Suc (writes (disk m)) \<and>
          (\<forall>bs. write_mode (disk m) = Write_ok \<and>
                 json_dump J (tasks m') = Inr bs \<longrightarrow> bytes (disk m') = bs))"
      using r s t d k w b by (intro conjI) simp_all
    then show ?thesis
      unfolding if_P [OF True] by (intro exI)
  next
    case False
    have "complete_task J m i = Inr (?f, m) \<and> (?f \<longleftrightarrow> ?f) \<and> m = m"
      using unf False by simp
    then show ?thesis
      unfolding if_not_P [OF False] by (intro exI)
  qed
qed


text \<open>
  C2. On the store that holds one task, with id 1, not done, whose title is a lone
  surrogate, \<open>complete_task\<close> of 1 does not return \<open>True\<close>: it sets \<open>isDone\<close>, the file is
  emptied and gets the text up to the title, and \<open>UnicodeEncodeError\<close> leaves \<open>save\<close>
  and \<open>complete_task\<close>.
\<close>

theorem complete_task_raises_out_of_save:
  "task_id (surrogate_task False) = Some 1 \<and> \<not> is_done (surrogate_task False) \<and>
   tasks surrogate_store = JArr [surrogate_task False] \<and>
   complete_task sample_lib surrogate_store 1 =
     Inl (UnicodeEncodeError,
          \<lparr>tasks = JArr [surrogate_task True],
           disk = sample_disk\<lparr>present := True, bytes := written_before_title,
                              writes := 2\<rparr>\<rparr>)"
proof -
  have 1: "task_id (surrogate_task False) = Some 1"
    by (simp add: surrogate_task_def task_id_def)
  have 2: "\<not> is_done (surrogate_task False)"
    by (simp add: surrogate_task_def is_done_def)
  have 3: "tasks surrogate_store = JArr [surrogate_task False]"
    by (simp add: surrogate_store_def)
  have s: "complete_scan [surrogate_task False] 1 = Inr (True, True, [surrogate_task True])"
    by (simp add: surrogate_task_def)
  have d: "json_dump sample_lib (JArr [surrogate_task True]) =
      Inl (UnicodeEncodeError, written_before_title)"
    by (simp add: sample_lib_def sample_print_def)
  have sv: "save sample_lib (surrogate_store\<lparr>tasks := JArr [surrogate_task True]\<rparr>) =
      Inl (UnicodeEncodeError,
          \<lparr>tasks = JArr [surrogate_task True],
           disk = sample_disk\<lparr>present := True, bytes := written_before_title,
                              writes := 2\<rparr>\<rparr>)"
    by (simp add: save_def d surrogate_store_def sample_disk_def)
  have 4: "complete_task sample_lib surrogate_store 1 =
     Inl (UnicodeEncodeError,
          \<lparr>tasks = JArr [surrogate_task True],
           disk = sample_disk\<lparr>present := True, bytes := written_before_title,
                              writes := 2\<rparr>\<rparr>)"
    using complete_task_unfold [OF 3 s, of sample_lib] sv by simp
  from 1 2 3 4 show ?thesis by (intro conjI)
qed

section \<open>Persistence\<close>

lemma load_missing: "\<not> present (disk m) \<Longrightarrow> load J m = Inr (m\<lparr>tasks := JArr []\<rparr>)"
  by (simp add: load_def)

lemma load_unreadable:
  "present (disk m) \<Longrightarrow> \<not> readable (disk m) \<Longrightarrow> load J m = Inr (m\<lparr>tasks := JArr []\<rparr>)"
  by (simp add: load_def)

lemma load_caught:
  "json_load J (bytes (disk m)) = Inl e \<Longrightarrow> e = JSONDecodeError \<or> e = OSError \<Longrightarrow>
   load J m = Inr (m\<lparr>tasks := JArr []\<rparr>)"
  by (auto simp: load_def)

lemma load_parsed:
  "present (disk m) \<Longrightarrow> readable (disk m) \<Longrightarrow> json_load J (bytes (disk m)) = Inr v \<Longrightarrow>
   load J m = Inr (m\<lparr>tasks := v\<rparr>)"
  by (simp add: load_def)

text \<open>
  \<open>save\<close> returns when opening or writing the file fails with \<open>OSError\<close>, and the
  collection in memory is what it was.
\<close>

lemma save_io_failure:
  "write_mode (disk m) \<noteq> Write_ok \<or> (\<exists>written. json_dump J (tasks m) = Inl (OSError, written)) \<Longrightarrow>
   \<exists>m'. save J m = Inr m' \<and> tasks m' = tasks m"
  by (cases "write_mode (disk m)") (auto simp: save_def)

text \<open>
  C6. \<open>load\<close> catches \<open>json.JSONDecodeError\<close> and \<open>IOError\<close> only. When reading the file
  raises anything else, as decoding bytes that are not UTF-8 does
  (\<open>UnicodeDecodeError\<close>), the exception leaves \<open>load\<close>, and with it the constructor of
  \<open>TaskManager\<close>.
\<close>

theorem load_propagates_uncaught:
  assumes "present d" and "readable d" and "json_load J (bytes d) = Inl e"
    and "e \<noteq> JSONDecodeError" and "e \<noteq> OSError"
  shows "init J d = Inl e"
  using assms by (simp add: init_def load_def)

theorem load_propagates_uncaught_witness:
  "present (sample_disk\<lparr>present := True, bytes := [CHR 0xFF]\<rparr>) \<and>
   readable (sample_disk\<lparr>present := True, bytes := [CHR 0xFF]\<rparr>) \<and>
   json_load sample_lib (bytes (sample_disk\<lparr>present := True, bytes := [CHR 0xFF]\<rparr>)) =
     Inl UnicodeDecodeError \<and>
   UnicodeDecodeError \<noteq> JSONDecodeError \<and> UnicodeDecodeError \<noteq> OSError \<and>
   init sample_lib (sample_disk\<lparr>present := True, bytes := [CHR 0xFF]\<rparr>) =
     Inl UnicodeDecodeError"
  using load_propagates_uncaught
    [of "sample_disk\<lparr>present := True, bytes := [CHR 0xFF]\<rparr>" sample_lib UnicodeDecodeError]
  by (simp add: sample_disk_def sample_lib_def sample_parse_def sample_texts_def)

section \<open>Requests\<close>

lemma handle_create_task_invalid_json:
  assumes "(case content_length rq of None \<Rightarrow> Some 0 | Some h \<Rightarrow> py_int h) = Some n"
    and "rfile_read (rfile rq) n = Inr bs"
    and "json_loads J bs = Inl JSONDecodeError"
  shows "handle_create_task J m rq = Inr (send_error 400 ''Invalid JSON'', m)"
  using assms by (simp add: handle_create_task_def)

lemma handle_create_task_object:
  assumes "(case content_length rq of None \<Rightarrow> Some 0 | Some h \<Rightarrow> py_int h) = Some n"
    and "rfile_read (rfile rq) n = Inr bs"
    and "json_loads J bs = Inr (JObj kvs)"
    and "title = (case map_of kvs ''title'' of None \<Rightarrow> JNull | Some v \<Rightarrow> v)"
    and "priority = (case map_of kvs ''priority'' of None \<Rightarrow> JNull | Some v \<Rightarrow> v)"
  shows "handle_create_task J m rq =
     (if \<not> py_truthy title \<or> \<not> py_truthy priority
      then Inr (send_error 400 ''Missing title or priority'', m)
      else if priority \<noteq> JStr ''low'' \<and> priority \<noteq> JStr ''normal'' \<and> priority \<noteq> JStr ''high''
      then Inr (send_error 400 ''Priority must be low, normal, or high'', m)
      else (case create_task J m title priority of
              Inl (e, m') \<Rightarrow> Inl (e, m')
            | Inr (task, m') \<Rightarrow>
                (case send_json_response J 201 task of
                   Inl e \<Rightarrow> Inl (e, m')
                 | Inr r \<Rightarrow> Inr (r, m'))))"
  using assms by (simp add: handle_create_task_def)

lemma handle_create_task_not_object:
  assumes "(case content_length rq of None \<Rightarrow> Some 0 | Some h \<Rightarrow> py_int h) = Some n"
    and "rfile_read (rfile rq) n = Inr bs"
    and "json_loads J bs = Inr data"
    and "\<forall>kvs. data \<noteq> JObj kvs"
  shows "handle_create_task J m rq = Inl (AttributeError, m)"
  using assms by (cases data) (simp_all add: handle_create_task_def)

text \<open>The scenarios of a created task, an empty title and an unknown priority.\<close>

lemma create_scenario:
  assumes "tasks m = JArr []"
    and "(case content_length rq of None \<Rightarrow> Some 0 | Some h \<Rightarrow> py_int h) = Some n"
    and "rfile_read (rfile rq) n = Inr bs"
    and "json_loads J bs =
           Inr (JObj [(''title'', JStr ''Buy milk''), (''priority'', JStr ''low'')])"
    and "\<not> dump_raises J (JArr [sample_task])"
    and "json_dumps J sample_task = Inr out"
  shows "\<exists>m'. handle_create_task J m rq =
           Inr (\<lparr>status = 201, headers = [(''Content-Type'', ''application/json'')],
                 body = out\<rparr>, m') \<and>
         tasks m' = JArr [sample_task]"
proof -
  have nt: "new_task [] (JStr ''Buy milk'') (JStr ''low'') = sample_task"
    by (simp add: new_task_def next_id_def sample_task_def)
  have ids: "task_ids [] = Inr []" by simp
  note unf = create_task_unfold [OF assms(1) ids, of J "JStr ''Buy milk''" "JStr ''low''",
      unfolded nt]
  let ?m1 = "m\<lparr>tasks := JArr ([] @ [sample_task])\<rparr>"
  have "\<not> dump_raises J (tasks ?m1)" using assms(5) by simp
  from save_returns [OF this] obtain m' where s: "save J ?m1 = Inr m'" by blast
  have c: "create_task J m (JStr ''Buy milk'') (JStr ''low'') = Inr (sample_task, m')"
    unfolding unf using s by simp
  have t: "tasks m' = JArr [sample_task]" using save_Inr [OF s] by simp
  have "handle_create_task J m rq =
           Inr (\<lparr>status = 201, headers = [(''Content-Type'', ''application/json'')],
                 body = out\<rparr>, m')"
    using assms(2,3,4,6) c by (simp add: handle_create_task_def send_json_response_def)
  then show ?thesis using t by blast
qed

lemma missing_title_scenario:
  assumes "(case content_length rq of None \<Rightarrow> Some 0 | Some h \<Rightarrow> py_int h) = Some n"
    and "rfile_read (rfile rq) n = Inr bs"
    and "json_loads J bs = Inr (JObj [(''title'', JStr []), (''priority'', JStr ''low'')])"
  shows "handle_create_task J m rq = Inr (send_error 400 ''Missing title or priority'', m)"
  using assms by (simp add: handle_create_task_def)

lemma bad_priority_scenario:
  assumes "(case content_length rq of None \<Rightarrow> Some 0 | Some h \<Rightarrow> py_int h) = Some n"
    and "rfile_read (rfile rq) n = Inr bs"
    and "json_loads J bs = Inr (JObj [(''title'', JStr ''X''), (''priority'', JStr ''urgent'')])"
  shows "handle_create_task J m rq =
           Inr (send_error 400 ''Priority must be low, normal, or high'', m)"
  using assms by (simp add: handle_create_task_def)

lemma py_int_35: "py_int ''35'' = Some 35"
  by (simp add: py_int_def py_unsigned_def max_str_digits_def py_strip_def py_isspace_def
        py_isdigit_def)

text \<open>
  How a lone surrogate gets into the store: \<open>POST /tasks\<close> with the escape of U+D800 as
  title passes the three checks, the task is appended, and \<open>UnicodeEncodeError\<close> leaves
  \<open>save\<close>, \<open>create_task\<close> and the handler, so no response is sent.
\<close>

lemma surrogate_store_reached:
  \<open>handle_one_request sample_lib \<lparr>tasks = JArr [], disk = sample_disk\<rparr>
     \<lparr>command = ''POST'', path = ''/tasks'', content_length = Some ''35'',
      rfile = ''{"title":"'' @ [CHR 0x5C] @ ''ud800","priority":"low"}''\<rparr>
   = Inl (UnicodeEncodeError, surrogate_store)\<close>
proof -
  have s: "save sample_lib \<lparr>tasks = JArr [surrogate_task False], disk = sample_disk\<rparr> =
      Inl (UnicodeEncodeError, surrogate_store)"
    by (simp add: save_def sample_lib_def sample_print_def sample_disk_def surrogate_store_def)
  have c: "create_task sample_lib \<lparr>tasks = JArr [], disk = sample_disk\<rparr>
      (JStr surrogate) (JStr ''low'') = Inl (UnicodeEncodeError, surrogate_store)"
    using s by (simp add: create_task_def surrogate_task_def)
  have ne: "surrogate \<noteq> []" by (simp add: surrogate_def)
  show ?thesis
    using c ne
    by (simp add: handle_one_request_def do_POST_def handle_create_task_def py_strip_def
        py_int_35 rfile_read_def sample_lib_def sample_parse_def sample_texts_def)
qed

text \<open>
  C7. A \<open>POST /tasks\<close> request whose body is the JSON text \<open>[]\<close> is answered neither 400
  nor 201: the body parses, \<open>data.get\<close> does not exist on a list, and \<open>AttributeError\<close>
  leaves the handler, with the store as it was.
\<close>

theorem create_with_list_body_raises:
  "handle_one_request sample_lib sample_store
     \<lparr>command = ''POST'', path = ''/tasks'', content_length = Some ''2'', rfile = ''[]''\<rparr>
   = Inl (AttributeError, sample_store)"
  by (simp add: handle_one_request_def do_POST_def handle_create_task_def py_strip_def
        py_int_def py_unsigned_def max_str_digits_def py_isspace_def py_isdigit_def
        rfile_read_def sample_lib_def sample_parse_def sample_texts_def)

text \<open>
  C8. A \<open>POST\<close> request whose path splits into \<open>tasks\<close>, a segment that \<open>int\<close> rejects, and
  \<open>complete\<close> is answered 404 with no headers of the program's and an empty body, on
  every store (also one on which \<open>complete_task\<close> would raise), and the state is
  unchanged. It is the response that an id no task has gets.
\<close>

theorem complete_with_non_integer_id:
  assumes "command rq = ''POST''" and "post_parts rq = [''tasks'', seg, ''complete'']"
    and "py_int seg = None"
  shows "handle_one_request J m rq = Inr (\<lparr>status = 404, headers = [], body = []\<rparr>, m) \<and>
         (\<forall>seg' i m'. py_int seg' = Some i \<and> complete_task J m i = Inr (False, m') \<longrightarrow>
            handle_complete_task J m seg' = Inr (\<lparr>status = 404, headers = [], body = []\<rparr>, m'))"
  using assms
  by (simp add: handle_one_request_def do_POST_def post_parts_def handle_complete_task_def
        send_empty_def)

theorem complete_with_non_integer_id_witness:
  "command \<lparr>command = ''POST'', path = ''/tasks/abc/complete'', content_length = None,
      rfile = []\<rparr> = ''POST'' \<and>
   post_parts \<lparr>command = ''POST'', path = ''/tasks/abc/complete'', content_length = None,
      rfile = []\<rparr> = [''tasks'', ''abc'', ''complete''] \<and>
   py_int ''abc'' = None \<and>
   handle_one_request sample_lib sample_store
     \<lparr>command = ''POST'', path = ''/tasks/abc/complete'', content_length = None, rfile = []\<rparr>
   = Inr (\<lparr>status = 404, headers = [], body = []\<rparr>, sample_store) \<and>
   py_int ''999'' = Some 999 \<and>
   complete_task sample_lib sample_store 999 = Inr (False, sample_store) \<and>
   handle_complete_task sample_lib sample_store ''999'' =
     Inr (\<lparr>status = 404, headers = [], body = []\<rparr>, sample_store)"
proof -
  let ?rq = "\<lparr>command = ''POST'', path = ''/tasks/abc/complete'', content_length = None,
      rfile = []\<rparr>"
  have 1: "command ?rq = ''POST''" by simp
  have 2: "post_parts ?rq = [''tasks'', ''abc'', ''complete'']"
    by (simp add: post_parts_def py_strip_def)
  have 3: "py_int ''abc'' = None"
    by (simp add: py_int_def py_unsigned_def max_str_digits_def py_strip_def py_isspace_def
          py_isdigit_def)
  have 4: "py_int ''999'' = Some 999"
    by (simp add: py_int_def py_unsigned_def max_str_digits_def py_strip_def py_isspace_def
          py_isdigit_def)
  have 5: "complete_task sample_lib sample_store 999 = Inr (False, sample_store)"
    by (simp add: complete_task_def sample_store_def sample_task_def)
  from complete_with_non_integer_id [OF 1 2 3, of sample_lib sample_store] 4 5
  show ?thesis using 1 2 3 by blast
qed

text \<open>
  C9. A request that matches no route is answered 404 when its command is \<open>GET\<close> or
  \<open>POST\<close>, and 501 by the base class for any other command; the state is unchanged in
  both cases.
\<close>

theorem unmatched_request_not_found:
  assumes "\<not> matches_route rq"
  shows "\<exists>r. handle_one_request J m rq = Inr (r, m) \<and>
           status r = (if command rq = ''GET'' \<or> command rq = ''POST'' then 404 else 501)"
proof (cases "command rq = ''GET''")
  case True
  then have "path rq \<noteq> ''/tasks''" using assms by (simp add: matches_route_def)
  then show ?thesis using True
    by (simp add: handle_one_request_def do_GET_def send_empty_def)
next
  case False
  show ?thesis
  proof (cases "command rq = ''POST''")
    case True
    then show ?thesis using assms
      by (auto simp: handle_one_request_def do_POST_def post_parts_def matches_route_def
            send_empty_def Let_def)
  next
    case False
    then show ?thesis using \<open>command rq \<noteq> ''GET''\<close>
      by (simp add: handle_one_request_def)
  qed
qed

theorem unmatched_request_not_found_witness:
  "\<not> matches_route \<lparr>command = ''GET'', path = ''/tasks/'', content_length = None, rfile = []\<rparr> \<and>
   (\<exists>r. handle_one_request sample_lib sample_store
          \<lparr>command = ''GET'', path = ''/tasks/'', content_length = None, rfile = []\<rparr>
        = Inr (r, sample_store) \<and> status r = 404)"
  using unmatched_request_not_found
    [of "\<lparr>command = ''GET'', path = ''/tasks/'', content_length = None, rfile = []\<rparr>"
        sample_lib sample_store]
  by (simp add: matches_route_def)

text \<open>
  A \<open>DELETE\<close> request matches no route and is answered 501, not 404.
\<close>

theorem other_method_not_404:
  "\<not> matches_route \<lparr>command = ''DELETE'', path = ''/tasks'', content_length = None, rfile = []\<rparr> \<and>
   handle_one_request sample_lib sample_store
     \<lparr>command = ''DELETE'', path = ''/tasks'', content_length = None, rfile = []\<rparr>
   = Inr (\<lparr>status = 501, headers = [], body = []\<rparr>, sample_store) \<and>
   status \<lparr>status = 501, headers = [], body = []\<rparr> \<noteq> 404"
  by (simp add: matches_route_def handle_one_request_def sample_lib_def)

section \<open>The invariants of the data model\<close>

















end
